theory Spec2Isabelle
  imports Main "HOL-Library.Multiset"
begin

section \<open>The validator (src/python/validator.py)\<close>

subsection \<open>Syntax trees\<close>

text \<open>
  The validator works on the tree that Python's \<^verbatim>\<open>ast.parse\<close> returns. The tree type
  keeps the node classes and fields that \<^verbatim>\<open>validate_code\<close> reads, and the child nodes
  in the order of \<^verbatim>\<open>ast.iter_child_nodes\<close>:
  \<^item> \<open>Module body\<close>: the root, with its top-level statements;
  \<^item> \<open>Import names\<close>: \<^verbatim>\<open>import a.b, c\<close>, with \<^verbatim>\<open>alias.name\<close> of every alias;
  \<^item> \<open>ImportFrom module names level\<close>: \<^verbatim>\<open>from module import names\<close>, again with
    \<^verbatim>\<open>alias.name\<close> of every alias (the imported names), the module being optional
    (\<^verbatim>\<open>from . import x\<close>);
  \<^item> \<open>FunctionDef name arguments children\<close>: \<open>arguments\<close> is \<^verbatim>\<open>node.args\<close>, \<open>children\<close>
    are the child nodes (the arguments node with the default expressions, the body,
    the decorators, the return annotation);
  \<^item> \<open>Call func rest\<close>: \<^verbatim>\<open>node.func\<close>, then the arguments and keywords;
  \<^item> \<open>Name ident\<close>: \<^verbatim>\<open>node.id\<close>;
  \<^item> \<open>Attribute val attr\<close>: \<^verbatim>\<open>node.value\<close> and \<^verbatim>\<open>node.attr\<close>;
  \<^item> \<open>Other cls children\<close>: a node of any other class, with \<^verbatim>\<open>type(node).__name__\<close>.

  \<open>Arguments posonlyargs args vararg kwonlyargs kwarg\<close> is \<^verbatim>\<open>ast.arguments\<close> with the
  name (\<^verbatim>\<open>a.arg\<close>) of every parameter: for \<^verbatim>\<open>def f(a, /, b, *c, d, **e)\<close> it is
  \<open>Arguments [a] [b] (Some c) [d] (Some e)\<close>.

  Leaf nodes that carry no field the validator reads (aliases, expression contexts,
  operators) are left out of the child lists; they are never calls, and leaving
  leaves out does not change the order in which the other nodes are walked.
\<close>

datatype arguments =
  Arguments "string list" "string list" "string option" "string list" "string option"

datatype node =
    Module "node list"
  | Import "string list"
  | ImportFrom "string option" "string list" nat
  | FunctionDef string arguments "node list"
  | Call node "node list"
  | Name string
  | Attribute node string
  | Other string "node list"

text \<open>\<^verbatim>\<open>type(node).__name__\<close>\<close>

fun type_name :: "node \<Rightarrow> string" where
  "type_name (Module _) = ''Module''"
| "type_name (Import _) = ''Import''"
| "type_name (ImportFrom _ _ _) = ''ImportFrom''"
| "type_name (FunctionDef _ _ _) = ''FunctionDef''"
| "type_name (Call _ _) = ''Call''"
| "type_name (Name _) = ''Name''"
| "type_name (Attribute _ _) = ''Attribute''"
| "type_name (Other cls _) = cls"

fun iter_child_nodes :: "node \<Rightarrow> node list" where
  "iter_child_nodes (Module body) = body"
| "iter_child_nodes (Import _) = []"
| "iter_child_nodes (ImportFrom _ _ _) = []"
| "iter_child_nodes (FunctionDef _ _ children) = children"
| "iter_child_nodes (Call func rest) = func # rest"
| "iter_child_nodes (Name _) = []"
| "iter_child_nodes (Attribute val _) = [val]"
| "iter_child_nodes (Other _ children) = children"

lemma sum_list_Suc_size:
  "sum_list (map (\<lambda>c. Suc (f c)) xs) = sum_list (map f xs) + length xs"
  by (induction xs) simp_all

lemma size_child_nodes:
  "sum_list (map (\<lambda>c. Suc (size c)) (iter_child_nodes n)) < Suc (size n)"
  by (cases n) (simp_all add: size_list_conv_sum_list sum_list_Suc_size)

text \<open>
  \<^verbatim>\<open>ast.walk\<close> of the standard library: a queue that starts with the root; the first
  node is taken off, its children are put at the end, and the node is yielded.
\<close>

function walk_queue :: "node list \<Rightarrow> node list" where
  "walk_queue [] = []"
| "walk_queue (n # todo) = n # walk_queue (todo @ iter_child_nodes n)"
  by pat_completeness auto
termination
proof (relation "measure (\<lambda>todo. sum_list (map (\<lambda>c. Suc (size c)) todo))")
  show "wf (measure (\<lambda>todo. sum_list (map (\<lambda>c. Suc (size c)) todo)))"
    by simp
next
  fix n :: node and todo :: "node list"
  show "(todo @ iter_child_nodes n, n # todo)
          \<in> measure (\<lambda>todo. sum_list (map (\<lambda>c. Suc (size c)) todo))"
    using size_child_nodes [of n] by simp
qed

definition walk :: "node \<Rightarrow> node list" where
  "walk tree = walk_queue [tree]"

text \<open>All nodes of a tree, by structural recursion (the node, then the nodes below it).\<close>

fun subnodes :: "node \<Rightarrow> node list" where
  "subnodes (Module body) = Module body # concat (map subnodes body)"
| "subnodes (Import names) = [Import names]"
| "subnodes (ImportFrom m names lvl) = [ImportFrom m names lvl]"
| "subnodes (FunctionDef name args children) =
     FunctionDef name args children # concat (map subnodes children)"
| "subnodes (Call func rest) = Call func rest # subnodes func @ concat (map subnodes rest)"
| "subnodes (Name ident) = [Name ident]"
| "subnodes (Attribute val attr) = Attribute val attr # subnodes val"
| "subnodes (Other cls children) = Other cls children # concat (map subnodes children)"

subsection \<open>What \<^verbatim>\<open>ast.parse\<close> does\<close>

text \<open>
  The parser is Python's, not the repository's: it is a parameter of the model. A call
  either returns a \<^verbatim>\<open>Module\<close> (given by its body), raises \<^verbatim>\<open>SyntaxError\<close>, or raises
  another \<^verbatim>\<open>Exception\<close> (\<^verbatim>\<open>ValueError\<close>, \<^verbatim>\<open>RecursionError\<close>, \<^verbatim>\<open>MemoryError\<close>); the two
  exceptions carry \<^verbatim>\<open>str(e)\<close>. The parser raises nothing outside \<^verbatim>\<open>Exception\<close>: an
  interrupt comes from a signal, not from the source text.
\<close>

datatype parse_outcome =
    Parsed "node list"
  | RaisesSyntaxError string
  | RaisesException string

subsection \<open>Exceptions of the validator's own operations\<close>

datatype py_error = IndexError

text \<open>\<^verbatim>\<open>xs[i]\<close> for an index that is not negative.\<close>

definition py_index :: "'a list \<Rightarrow> nat \<Rightarrow> py_error + 'a" where
  "py_index xs i = (if i < length xs then Inr (xs ! i) else Inl IndexError)"

text \<open>\<^verbatim>\<open>s.split(sep)\<close> for a separator of one character.\<close>

fun split_on :: "char \<Rightarrow> string \<Rightarrow> string list" where
  "split_on sep [] = [[]]"
| "split_on sep (c # cs) =
     (if c = sep then [] # split_on sep cs
      else (case split_on sep cs of [] \<Rightarrow> [[c]] | w # ws \<Rightarrow> (c # w) # ws))"

subsection \<open>The policy constants\<close>

definition ALLOWED_IMPORTS :: "string set" where
  "ALLOWED_IMPORTS =
     {''math'', ''json'', ''datetime'', ''re'', ''random'', ''collections'', ''itertools'',
      ''functools''}"

definition FORBIDDEN_CALLS :: "string set" where
  "FORBIDDEN_CALLS =
     {''eval'', ''exec'', ''compile'', ''open'', ''input'', ''__import__'', ''globals'',
      ''locals'', ''super'', ''help'', ''exit'', ''quit''}"

definition FORBIDDEN_ATTRS :: "string set" where
  "FORBIDDEN_ATTRS = {''system'', ''popen'', ''spawn'', ''fork'', ''kill''}"

subsection \<open>The messages\<close>

text \<open>
  Every message is the string the source appends. \<open>quoted s\<close> is \<^verbatim>\<open>'{s}'\<close> of an
  f-string. \<open>repr_list xs\<close> is \<^verbatim>\<open>{xs}\<close> for a list of plain identifiers. The message
  of a forbidden import prints \<^verbatim>\<open>list(ALLOWED_IMPORTS)\<close>; the order in which a Python
  set of strings is listed is fixed within one process and not by the source, so the
  listing is a parameter, \<open>listing\<close>, of the model.
\<close>

definition quoted :: "string \<Rightarrow> string" where
  "quoted s = [CHR 0x27] @ s @ [CHR 0x27]"

fun join_comma :: "string list \<Rightarrow> string" where
  "join_comma [] = []"
| "join_comma [x] = x"
| "join_comma (x # y # ys) = x @ '', '' @ join_comma (y # ys)"

definition repr_list :: "string list \<Rightarrow> string" where
  "repr_list xs = ''['' @ join_comma (map quoted xs) @ '']''"

definition syntax_error_msg :: "string \<Rightarrow> string" where
  "syntax_error_msg e = ''Syntax Error: '' @ e"

definition parse_error_msg :: "string \<Rightarrow> string" where
  "parse_error_msg e = ''Parse Error: '' @ e"

definition forbidden_import_msg :: "string list \<Rightarrow> string \<Rightarrow> string" where
  "forbidden_import_msg listing module_name =
     ''Forbidden import: '' @ quoted module_name @ ''. Allowed: '' @ repr_list listing"

definition run_signature_msg :: string where
  "run_signature_msg =
     ''Function 'run' must accept exactly one argument named '' @ quoted ''params''"

definition forbidden_function_msg :: "string \<Rightarrow> string" where
  "forbidden_function_msg name =
     ''Forbidden top-level function: '' @ quoted name @ ''. Only 'run(params)' is allowed.''"

definition forbidden_statement_msg :: "string \<Rightarrow> string" where
  "forbidden_statement_msg cls =
     ''Forbidden top-level statement type: '' @ cls
       @ ''. Only imports and 'def run(params):' allowed.''"

definition missing_run_msg :: string where
  "missing_run_msg = ''Missing required function: '' @ quoted ''def run(params):''"

definition forbidden_call_msg :: "string \<Rightarrow> string" where
  "forbidden_call_msg ident = ''Forbidden function call: '' @ quoted ident"

definition forbidden_attr_msg :: "string \<Rightarrow> string" where
  "forbidden_attr_msg attr = ''Forbidden attribute access: '' @ quoted attr"

subsection \<open>\<^verbatim>\<open>validate_code\<close>\<close>

record validation =
  valid :: bool
  errors :: "string list"

text \<open>
  The loop over \<^verbatim>\<open>node.names\<close> of an import statement (lines 70 to 73): the root of
  every alias name is looked up in the whitelist.
\<close>

fun check_aliases :: "string list \<Rightarrow> string list \<Rightarrow> string list \<Rightarrow> py_error + string list" where
  "check_aliases listing [] errs = Inr errs"
| "check_aliases listing (alias_name # names) errs =
     (case py_index (split_on CHR ''.'' alias_name) 0 of
        Inl e \<Rightarrow> Inl e
      | Inr module_name \<Rightarrow>
          check_aliases listing names
            (if module_name \<notin> ALLOWED_IMPORTS
             then errs @ [forbidden_import_msg listing module_name] else errs))"

text \<open>
  \<^verbatim>\<open>len(args) != 1 or args[0] != 'params'\<close>: the right operand is evaluated only when
  the left one is false.
\<close>

definition run_args_mismatch :: "string list \<Rightarrow> py_error + bool" where
  "run_args_mismatch args =
     (if length args \<noteq> 1 then Inr True
      else (case py_index args 0 of Inl e \<Rightarrow> Inl e | Inr a \<Rightarrow> Inr (a \<noteq> ''params'')))"

text \<open>
  The body of the loop over \<^verbatim>\<open>tree.body\<close> (lines 68 to 87). The state is the list of
  errors and \<^verbatim>\<open>has_run_func\<close>. Of the arguments of a function definition the source
  reads \<^verbatim>\<open>node.args.args\<close> only.
\<close>

fun check_statement ::
  "string list \<Rightarrow> node \<Rightarrow> string list \<times> bool \<Rightarrow> py_error + (string list \<times> bool)" where
  "check_statement listing (Import names) (errs, has_run_func) =
     (case check_aliases listing names errs of
        Inl e \<Rightarrow> Inl e
      | Inr errs' \<Rightarrow> Inr (errs', has_run_func))"
| "check_statement listing (ImportFrom m names lvl) (errs, has_run_func) =
     (case check_aliases listing names errs of
        Inl e \<Rightarrow> Inl e
      | Inr errs' \<Rightarrow> Inr (errs', has_run_func))"
| "check_statement listing
     (FunctionDef name (Arguments posonlyargs args vararg kwonlyargs kwarg) children)
     (errs, has_run_func) =
     (if name = ''run'' then
        (case run_args_mismatch args of
           Inl e \<Rightarrow> Inl e
         | Inr mismatch \<Rightarrow>
             Inr (if mismatch then errs @ [run_signature_msg] else errs, True))
      else Inr (errs @ [forbidden_function_msg name], has_run_func))"
| "check_statement listing stmt (errs, has_run_func) =
     Inr (errs @ [forbidden_statement_msg (type_name stmt)], has_run_func)"

fun structure_check ::
  "string list \<Rightarrow> node list \<Rightarrow> string list \<times> bool \<Rightarrow> py_error + (string list \<times> bool)" where
  "structure_check listing [] st = Inr st"
| "structure_check listing (stmt # body) st =
     (case check_statement listing stmt st of
        Inl e \<Rightarrow> Inl e
      | Inr st' \<Rightarrow> structure_check listing body st')"

text \<open>The body of the loop over \<^verbatim>\<open>ast.walk(tree)\<close> (lines 97 to 104).\<close>

fun scan_node :: "node \<Rightarrow> string list \<Rightarrow> string list" where
  "scan_node (Call (Name ident) rest) errs =
     (if ident \<in> FORBIDDEN_CALLS then errs @ [forbidden_call_msg ident] else errs)"
| "scan_node (Call (Attribute val attr) rest) errs =
     (if attr \<in> FORBIDDEN_ATTRS then errs @ [forbidden_attr_msg attr] else errs)"
| "scan_node n errs = errs"

definition deep_scan :: "node \<Rightarrow> string list \<Rightarrow> string list" where
  "deep_scan tree errs = fold scan_node (walk tree) errs"

text \<open>
  The structural pass with the check of the entry point that follows it (lines 65 to
  91), started with no errors.
\<close>

definition structural_pass :: "string list \<Rightarrow> node list \<Rightarrow> py_error + string list" where
  "structural_pass listing body =
     (case structure_check listing body ([], False) of
        Inl e \<Rightarrow> Inl e
      | Inr (errs, has_run_func) \<Rightarrow>
          Inr (if \<not> has_run_func then errs @ [missing_run_msg] else errs))"

text \<open>
  \<^verbatim>\<open>validate_code\<close>: \<open>Inr\<close> is the dictionary returned, \<open>Inl\<close> an exception that leaves
  the function.
\<close>

definition validate_code ::
  "string list \<Rightarrow> (string \<Rightarrow> parse_outcome) \<Rightarrow> string \<Rightarrow> py_error + validation" where
  "validate_code listing ast_parse code_str =
     (case ast_parse code_str of
        RaisesSyntaxError e \<Rightarrow> Inr \<lparr>valid = False, errors = [syntax_error_msg e]\<rparr>
      | RaisesException e \<Rightarrow> Inr \<lparr>valid = False, errors = [parse_error_msg e]\<rparr>
      | Parsed body \<Rightarrow>
          (case structural_pass listing body of
             Inl e \<Rightarrow> Inl e
           | Inr errs \<Rightarrow>
               (let errs' = deep_scan (Module body) errs
                in Inr \<lparr>valid = (length errs' = 0), errors = errs'\<rparr>)))"

subsection \<open>What the passes compute\<close>

text \<open>The root component of a dotted module name: the text before the first dot.\<close>

definition module_root :: "string \<Rightarrow> string" where
  "module_root name = takeWhile (\<lambda>c. c \<noteq> CHR ''.'') name"

text \<open>
  The errors one statement adds, whether it defines \<^verbatim>\<open>run\<close>, and the errors one node
  adds in the deep scan, as plain functions. The lemmas below show that the loops of
  the source compute them and never raise.
\<close>

definition alias_errors :: "string list \<Rightarrow> string list \<Rightarrow> string list" where
  "alias_errors listing names =
     map (forbidden_import_msg listing)
       (filter (\<lambda>r. r \<notin> ALLOWED_IMPORTS) (map module_root names))"
fun statement_errors :: "string list \<Rightarrow> node \<Rightarrow> string list" where
  "statement_errors listing (Import names) = alias_errors listing names"
| "statement_errors listing (ImportFrom m names lvl) = alias_errors listing names"
| "statement_errors listing
     (FunctionDef name (Arguments posonlyargs args vararg kwonlyargs kwarg) children) =
     (if name = ''run'' then (if args \<noteq> [''params''] then [run_signature_msg] else [])
      else [forbidden_function_msg name])"
| "statement_errors listing stmt = [forbidden_statement_msg (type_name stmt)]"

fun defines_run :: "node \<Rightarrow> bool" where
  "defines_run (FunctionDef name parameters children) = (name = ''run'')"
| "defines_run stmt = False"

text \<open>
  The deep pass in the words of the specification: a call whose callee is a bare name
  in the forbidden calls is flagged with that name, a call whose callee is an attribute
  access with a forbidden attribute name is flagged with that attribute, and no other
  node is flagged.
\<close>

fun deep_flags :: "node \<Rightarrow> string list" where
  "deep_flags (Call (Name ident) rest) =
     (if ident \<in> FORBIDDEN_CALLS then [forbidden_call_msg ident] else [])"
| "deep_flags (Call (Attribute val attr) rest) =
     (if attr \<in> FORBIDDEN_ATTRS then [forbidden_attr_msg attr] else [])"
| "deep_flags n = []"

text \<open>The whitelist in the order the source writes it, for concrete runs.\<close>

definition listing_in_source_order :: "string list" where
  "listing_in_source_order =
     [''math'', ''json'', ''datetime'', ''re'', ''random'', ''collections'', ''itertools'',
      ''functools'']"




subsection \<open>The structural pass in the words of the specification\<close>







subsection \<open>Parse trees for the examples\<close>

text \<open>
  \<^verbatim>\<open>def run(params):\<close> with the three statements
  \<^verbatim>\<open>return [eval(x) for x in params]\<close>, \<^verbatim>\<open>os.system('ls')\<close> and \<^verbatim>\<open>os.popen\<close>: a
  forbidden call inside a comprehension, a call of a forbidden attribute, and a
  forbidden attribute that is read and not called.
\<close>

definition nested_calls_body :: "node list" where
  "nested_calls_body =
     [FunctionDef ''run'' (Arguments [] [''params''] None [] None)
        [Other ''arguments'' [Other ''arg'' []],
         Other ''Return''
           [Other ''ListComp''
              [Call (Name ''eval'') [Name ''x''],
               Other ''comprehension'' [Name ''x'', Name ''params'']]],
         Other ''Expr''
           [Call (Attribute (Name ''os'') ''system'') [Other ''Constant'' []]],
         Other ''Expr'' [Attribute (Name ''os'') ''popen'']]]"



section \<open>The runner (src/python/runner.py)\<close>

subsection \<open>The whitelist of built-in names\<close>

definition SAFE_BUILTINS :: "string set" where
  "SAFE_BUILTINS =
     {''abs'', ''all'', ''any'', ''ascii'', ''bin'', ''bool'', ''bytearray'', ''bytes'',
      ''chr'', ''complex'', ''dict'', ''divmod'', ''enumerate'', ''filter'', ''float'',
      ''format'', ''frozenset'', ''getattr'', ''hasattr'', ''hash'', ''hex'', ''id'',
      ''int'', ''isinstance'', ''issubclass'', ''iter'', ''len'', ''list'', ''map'',
      ''max'', ''min'', ''next'', ''object'', ''oct'', ''ord'', ''pow'', ''print'',
      ''range'', ''repr'', ''reversed'', ''round'', ''set'', ''slice'', ''sorted'',
      ''str'', ''sum'', ''tuple'', ''type'', ''zip'', ''__import__'',
      ''Exception'', ''BaseException'', ''ValueError'', ''TypeError'', ''KeyError'',
      ''IndexError'', ''AttributeError'', ''RuntimeError'', ''ImportError'',
      ''NameError'', ''SyntaxError'', ''StopIteration'', ''ArithmeticError'',
      ''AssertionError'', ''BufferError'', ''EOFError'', ''FloatingPointError'',
      ''GeneratorExit'', ''KeyboardInterrupt'', ''LookupError'', ''MemoryError'',
      ''NotImplementedError'', ''OSError'', ''OverflowError'', ''ReferenceError'',
      ''SystemError'', ''SystemExit'', ''UnboundLocalError'', ''UnicodeError'',
      ''ZeroDivisionError'',
      ''super'', ''property'', ''classmethod'', ''staticmethod''}"

subsection \<open>Python as the runner sees it\<close>

text \<open>
  The sandbox is a dictionary from names to values. The value under
  \<^verbatim>\<open>__builtins__\<close> is itself a dictionary of built-ins; every other value is an
  object of the type \<open>'v\<close> of Python values, which the runner never looks into.
\<close>

datatype 'v entry = BuiltinsDict "string \<Rightarrow> 'v option" | Obj 'v

type_synonym 'v namespace = "string \<Rightarrow> 'v entry option"

text \<open>
  An exception, with what the runner can observe of it: its class, \<^verbatim>\<open>str(e)\<close>, and
  whether it is an instance of \<^verbatim>\<open>Exception\<close> (\<^verbatim>\<open>SystemExit\<close>, \<^verbatim>\<open>KeyboardInterrupt\<close>
  and \<^verbatim>\<open>GeneratorExit\<close> are not).
\<close>

record py_exc =
  exc_class :: string
  exc_str :: string
  is_Exception :: bool

text \<open>
  An \<^verbatim>\<open>io.StringIO\<close>: its value and whether it has been closed. \<^verbatim>\<open>getvalue()\<close> of a
  closed buffer raises \<^verbatim>\<open>ValueError\<close>.
\<close>

record capture =
  content :: string
  is_closed :: bool

definition new_capture :: capture where
  "new_capture = \<lparr>content = [], is_closed = False\<rparr>"

definition closed_file_error :: py_exc where
  "closed_file_error =
     \<lparr>exc_class = ''ValueError'', exc_str = ''I/O operation on closed file'',
      is_Exception = True\<rparr>"

definition getvalue :: "capture \<Rightarrow> py_exc + string" where
  "getvalue c = (if is_closed c then Inl closed_file_error else Inr (content c))"

text \<open>
  The state that the runner reads after the script has run, and that the script can
  change. While the two streams are redirected, \<^verbatim>\<open>sys.stdout\<close> and \<^verbatim>\<open>sys.stderr\<close> are the
  two buffers: a script that reaches \<^verbatim>\<open>sys\<close> can write to them, and can also truncate,
  overwrite or close them. \<open>leave_raises\<close> is the exception, if any, with which the
  \<^verbatim>\<open>__exit__\<close> methods of the two redirections leave the \<^verbatim>\<open>with\<close> block: they assign to
  \<^verbatim>\<open>sys.stdout\<close> and \<^verbatim>\<open>sys.stderr\<close> through the global \<^verbatim>\<open>sys\<close> of \<^verbatim>\<open>contextlib\<close>, which a
  script can rebind.
\<close>

record world =
  stdout_capture :: capture
  stderr_capture :: capture
  leave_raises :: "py_exc option"

text \<open>
  How a piece of Python ends: it returns a value, raises, or never comes back. With
  the end goes the state it leaves.
\<close>

datatype 'a ending = Returns 'a | Raises py_exc | Diverges

record 'a run =
  world_after :: world
  ending :: "'a ending"

text \<open>
  The interpreter is a parameter of the model:
  \<^item> \<open>py_exec py code sandbox w\<close> is \<^verbatim>\<open>exec(code, sandbox)\<close> in the state \<open>w\<close>; it returns
    the sandbox as the code left it;
  \<^item> \<open>py_callable py f\<close> is \<^verbatim>\<open>callable(f)\<close>;
  \<^item> \<open>py_call py f x w\<close> is \<^verbatim>\<open>f(x)\<close> in the state \<open>w\<close>;
  \<^item> \<open>format_exc py e\<close> is \<^verbatim>\<open>traceback.format_exc()\<close> in the handler of \<open>e\<close>.

  The names that the runner itself looks up after the script has run (\<^verbatim>\<open>callable\<close>,
  \<^verbatim>\<open>ValueError\<close>, \<^verbatim>\<open>Exception\<close>, \<^verbatim>\<open>traceback.format_exc\<close>) are taken as Python starts
  them.
\<close>

record 'v python =
  py_exec :: "string \<Rightarrow> 'v namespace \<Rightarrow> world \<Rightarrow> ('v namespace) run"
  py_callable :: "'v \<Rightarrow> bool"
  py_call :: "'v \<Rightarrow> 'v \<Rightarrow> world \<Rightarrow> 'v run"
  format_exc :: "py_exc \<Rightarrow> string"

subsection \<open>\<^verbatim>\<open>execute_task\<close>\<close>

text \<open>
  The dictionary returned. \<open>data = None\<close> and \<open>error = None\<close> are the initial
  \<^verbatim>\<open>None\<close> of \<^verbatim>\<open>result_data\<close> and \<^verbatim>\<open>error_msg\<close>.
\<close>

record 'v execution =
  success :: bool
  data :: "'v option"
  error :: "string option"
  stdout :: string
  stderr :: string

text \<open>
  A call of \<^verbatim>\<open>execute_task\<close> returns its dictionary, is left by an exception, or never
  returns.
\<close>

datatype 'v task_outcome = Returned "'v execution" | Propagated py_exc | NeverReturns

text \<open>
  Lines 84 to 93. \<open>builtins\<close> is Python's \<^verbatim>\<open>builtins\<close> module as a map from names to
  values; the loop copies the names of \<open>SAFE_BUILTINS\<close> that the module has.
\<close>

definition make_sandbox :: "(string \<Rightarrow> 'v option) \<Rightarrow> 'v \<Rightarrow> 'v namespace" where
  "make_sandbox builtins params =
     (let safe_builtins_dict = builtins |` SAFE_BUILTINS
      in [''__builtins__'' \<mapsto> BuiltinsDict safe_builtins_dict, ''params'' \<mapsto> Obj params])"

text \<open>
  Line 111, \<^verbatim>\<open>'run' in sandbox and callable(sandbox['run'])\<close>: the function to call if
  there is one. A dictionary is not callable.
\<close>

definition entry_point :: "'v python \<Rightarrow> 'v namespace \<Rightarrow> 'v option" where
  "entry_point py sandbox =
     (case sandbox ''run'' of
        Some (Obj f) \<Rightarrow> if py_callable py f then Some f else None
      | _ \<Rightarrow> None)"

text \<open>Line 112: the \<^verbatim>\<open>ValueError\<close> the runner raises itself.\<close>

definition missing_run_error :: py_exc where
  "missing_run_error =
     \<lparr>exc_class = ''ValueError'',
      exc_str = ''Code must define a 'run(params)' function.'',
      is_Exception = True\<rparr>"

text \<open>
  Lines 124 to 130, the return statement. It is outside the \<^verbatim>\<open>try\<close>: the two calls of
  \<^verbatim>\<open>getvalue()\<close> are made in the order of the dictionary, and an exception of either
  leaves \<^verbatim>\<open>execute_task\<close>.
\<close>

definition return_result ::
  "bool \<Rightarrow> 'v option \<Rightarrow> string option \<Rightarrow> world \<Rightarrow> 'v task_outcome" where
  "return_result success_flag result_data error_msg w =
     (case getvalue (stdout_capture w) of
        Inl e \<Rightarrow> Propagated e
      | Inr stdout_text \<Rightarrow>
          (case getvalue (stderr_capture w) of
             Inl e \<Rightarrow> Propagated e
           | Inr stderr_text \<Rightarrow>
               Returned \<lparr>success = success_flag, data = result_data, error = error_msg,
                         stdout = stdout_text, stderr = stderr_text\<rparr>))"

text \<open>
  Lines 118 to 121, \<^verbatim>\<open>except Exception\<close>, followed by the return statement. An
  exception that is not an instance of \<^verbatim>\<open>Exception\<close> leaves the function.
\<close>

definition except_clause ::
  "'v python \<Rightarrow> py_exc \<Rightarrow> 'v option \<Rightarrow> world \<Rightarrow> 'v task_outcome" where
  "except_clause py e result_data w =
     (if is_Exception e then return_result False result_data (Some (format_exc py e)) w
      else Propagated e)"

text \<open>
  Leaving the \<^verbatim>\<open>with\<close> block of line 105, with the exception that is on its way out
  of the block, if there is one. When the \<^verbatim>\<open>__exit__\<close> methods raise, their exception
  takes the place of the one on its way. Then the handler runs, or, when nothing was
  raised, the return statement with \<^verbatim>\<open>success = True\<close>.
\<close>

definition leave_with ::
  "'v python \<Rightarrow> world \<Rightarrow> py_exc option \<Rightarrow> 'v option \<Rightarrow> 'v task_outcome" where
  "leave_with py w raised result_data =
     (case (case leave_raises w of Some e' \<Rightarrow> Some e' | None \<Rightarrow> raised) of
        Some e \<Rightarrow> except_clause py e result_data w
      | None \<Rightarrow> return_result True result_data None w)"

text \<open>
  \<^verbatim>\<open>execute_task\<close>, called in an interpreter as Python starts it: the two buffers are
  new and entering and leaving the redirections works. \<^verbatim>\<open>result_data\<close> is assigned
  inside the \<^verbatim>\<open>with\<close> block (line 115), before the block is left.
\<close>

definition execute_task ::
  "'v python \<Rightarrow> (string \<Rightarrow> 'v option) \<Rightarrow> string \<Rightarrow> 'v \<Rightarrow> 'v task_outcome" where
  "execute_task py builtins code_str params =
     (let sandbox = make_sandbox builtins params;
          w0 = \<lparr>stdout_capture = new_capture, stderr_capture = new_capture,
                leave_raises = None\<rparr>;
          result_data = None;
          loaded = py_exec py code_str sandbox w0
      in case ending loaded of
           Diverges \<Rightarrow> NeverReturns
         | Raises e \<Rightarrow> leave_with py (world_after loaded) (Some e) result_data
         | Returns sandbox' \<Rightarrow>
             (case entry_point py sandbox' of
                None \<Rightarrow>
                  leave_with py (world_after loaded) (Some missing_run_error) result_data
              | Some run_func \<Rightarrow>
                  (let called = py_call py run_func params (world_after loaded)
                   in case ending called of
                        Diverges \<Rightarrow> NeverReturns
                      | Raises e \<Rightarrow> leave_with py (world_after called) (Some e) result_data
                      | Returns v \<Rightarrow> leave_with py (world_after called) None (Some v))))"

subsection \<open>An interpreter for four scripts\<close>

datatype pyval =
    PyNone
  | PyInt int
  | PyStr string
  | PyDict "(string \<times> pyval) list"
  | PyFunction string
  | PyModule string
  | PyBuiltin string

text \<open>
  The script of the specification, which prints and raises.
\<close>

definition hi_boom_script :: string where
  "hi_boom_script = ''def run(params): print('hi'); raise ValueError('boom')''"

text \<open>
  Three scripts that reach \<^verbatim>\<open>sys\<close> through the whitelisted module \<^verbatim>\<open>collections\<close>. The
  first rebinds the \<^verbatim>\<open>sys\<close> of \<^verbatim>\<open>contextlib\<close> and returns 42; the second closes the buffer
  that stands for \<^verbatim>\<open>sys.stdout\<close> and raises; the third prints and then empties that
  buffer.
\<close>

definition keep_data_script :: string where
  "keep_data_script =
     ''import collections\<newline>'' @
     ''def run(params):\<newline>'' @
     ''    collections._sys.modules['contextlib'].sys = 0\<newline>'' @
     ''    return 42\<newline>''"

definition close_stdout_script :: string where
  "close_stdout_script =
     ''import collections\<newline>'' @
     ''def run(params):\<newline>'' @
     ''    collections._sys.stdout.close()\<newline>'' @
     ''    raise ValueError('boom')\<newline>''"

definition truncate_script :: string where
  "truncate_script =
     ''import collections\<newline>'' @
     ''def run(params):\<newline>'' @
     ''    print('hi')\<newline>'' @
     ''    collections._sys.stdout.seek(0)\<newline>'' @
     ''    collections._sys.stdout.truncate()\<newline>'' @
     ''    return 1\<newline>''"

text \<open>The parse trees of the first two of them.\<close>

definition keep_data_body :: "node list" where
  "keep_data_body =
     [Import [''collections''],
      FunctionDef ''run'' (Arguments [] [''params''] None [] None)
        [Other ''arguments'' [Other ''arg'' []],
         Other ''Assign''
           [Attribute
              (Other ''Subscript''
                 [Attribute (Attribute (Name ''collections'') ''_sys'') ''modules'',
                  Other ''Constant'' []])
              ''sys'',
            Other ''Constant'' []],
         Other ''Return'' [Other ''Constant'' []]]]"

definition close_stdout_body :: "node list" where
  "close_stdout_body =
     [Import [''collections''],
      FunctionDef ''run'' (Arguments [] [''params''] None [] None)
        [Other ''arguments'' [Other ''arg'' []],
         Other ''Expr''
           [Call (Attribute
                    (Attribute (Attribute (Name ''collections'') ''_sys'') ''stdout'')
                    ''close'') []],
         Other ''Raise'' [Call (Name ''ValueError'') [Other ''Constant'' []]]]]"

text \<open>The exceptions that occur when the four scripts run.\<close>

definition boom_error :: py_exc where
  "boom_error = \<lparr>exc_class = ''ValueError'', exc_str = ''boom'', is_Exception = True\<rparr>"

definition no_attribute_error :: py_exc where
  "no_attribute_error =
     \<lparr>exc_class = ''AttributeError'',
      exc_str = quoted ''int'' @ '' object has no attribute '' @ quoted ''stdout'',
      is_Exception = True\<rparr>"

definition invalid_syntax_error :: py_exc where
  "invalid_syntax_error =
     \<lparr>exc_class = ''SyntaxError'', exc_str = ''invalid syntax'', is_Exception = True\<rparr>"

definition not_callable_error :: py_exc where
  "not_callable_error =
     \<lparr>exc_class = ''TypeError'', exc_str = ''object is not callable'', is_Exception = True\<rparr>"

text \<open>
  What Python does with the four scripts. Loading one of them binds \<^verbatim>\<open>run\<close> (and
  \<^verbatim>\<open>collections\<close>, when it is imported) and writes nothing; the function object is
  tagged with the script it comes from. Calling \<^verbatim>\<open>run\<close> does what the body of the
  script says. Any other text is taken not to parse. The trace ends with the line
  \<^verbatim>\<open>Class: message\<close>.
\<close>

definition known_python :: "pyval python" where
  "known_python =
     \<lparr>py_exec = (\<lambda>code_str sandbox w.
        if code_str = hi_boom_script then
          \<lparr>world_after = w,
           ending = Returns (sandbox(''run'' \<mapsto> Obj (PyFunction code_str)))\<rparr>
        else if code_str = keep_data_script \<or> code_str = close_stdout_script
                \<or> code_str = truncate_script then
          \<lparr>world_after = w,
           ending = Returns (sandbox(''collections'' \<mapsto> Obj (PyModule ''collections''),
                                     ''run'' \<mapsto> Obj (PyFunction code_str)))\<rparr>
        else \<lparr>world_after = w, ending = Raises invalid_syntax_error\<rparr>),
      py_callable = (\<lambda>v. case v of PyFunction _ \<Rightarrow> True | PyBuiltin _ \<Rightarrow> True | _ \<Rightarrow> False),
      py_call = (\<lambda>f x w.
        if f = PyFunction hi_boom_script then
          \<lparr>world_after =
             w\<lparr>stdout_capture :=
                 (stdout_capture w)\<lparr>content := content (stdout_capture w) @ ''hi\<newline>''\<rparr>\<rparr>,
           ending = Raises boom_error\<rparr>
        else if f = PyFunction keep_data_script then
          \<lparr>world_after = w\<lparr>leave_raises := Some no_attribute_error\<rparr>,
           ending = Returns (PyInt 42)\<rparr>
        else if f = PyFunction close_stdout_script then
          \<lparr>world_after = w\<lparr>stdout_capture := (stdout_capture w)\<lparr>is_closed := True\<rparr>\<rparr>,
           ending = Raises boom_error\<rparr>
        else if f = PyFunction truncate_script then
          \<lparr>world_after = w\<lparr>stdout_capture := (stdout_capture w)\<lparr>content := []\<rparr>\<rparr>,
           ending = Returns (PyInt 1)\<rparr>
        else \<lparr>world_after = w, ending = Raises not_callable_error\<rparr>),
      format_exc = (\<lambda>e. ''Traceback (most recent call last):\<newline>''
                        @ exc_class e @ '': '' @ exc_str e @ ''\<newline>'')\<rparr>"

text \<open>A \<^verbatim>\<open>builtins\<close> module with a few of its names.\<close>

definition some_builtins :: "string \<Rightarrow> pyval option" where
  "some_builtins =
     [''print'' \<mapsto> PyBuiltin ''print'', ''ValueError'' \<mapsto> PyBuiltin ''ValueError'',
      ''open'' \<mapsto> PyBuiltin ''open'', ''__import__'' \<mapsto> PyBuiltin ''__import__'']"

section \<open>The loops of the validator compute the plain functions\<close>

lemma split_on_hd: "\<exists>ws. split_on sep s = takeWhile (\<lambda>c. c \<noteq> sep) s # ws"
  by (induction s) (auto split: list.splits)

lemma py_index_split_on: "py_index (split_on CHR ''.'' name) 0 = Inr (module_root name)"
  using split_on_hd [of "CHR ''.''" name] by (auto simp: py_index_def module_root_def)

lemma check_aliases_eq:
  "check_aliases listing names errs = Inr (errs @ alias_errors listing names)"
  by (induction names arbitrary: errs) (simp_all add: py_index_split_on alias_errors_def)

lemma run_args_mismatch_eq: "run_args_mismatch args = Inr (args \<noteq> [''params''])"
  by (cases args) (auto simp: run_args_mismatch_def py_index_def)

lemma check_statement_eq:
  "check_statement listing stmt (errs, has_run) =
     Inr (errs @ statement_errors listing stmt, has_run \<or> defines_run stmt)"
  by (induction listing stmt rule: statement_errors.induct)
     (auto simp: check_aliases_eq run_args_mismatch_eq)

lemma structure_check_eq:
  "structure_check listing body (errs, has_run) =
     Inr (errs @ concat (map (statement_errors listing) body),
          has_run \<or> list_ex defines_run body)"
  by (induction body arbitrary: errs has_run) (simp_all add: check_statement_eq)

lemma structural_pass_eq:
  "structural_pass listing body =
     Inr (concat (map (statement_errors listing) body)
          @ (if list_ex defines_run body then [] else [missing_run_msg]))"
  by (simp add: structural_pass_def structure_check_eq)

lemma scan_node_eq: "scan_node n errs = errs @ deep_flags n"
  by (induction n errs rule: scan_node.induct) simp_all

lemma fold_scan_node: "fold scan_node ns errs = errs @ concat (map deep_flags ns)"
  by (induction ns arbitrary: errs) (simp_all add: scan_node_eq)

lemma subnodes_children:
  "mset (subnodes n) = {#n#} + mset (concat (map subnodes (iter_child_nodes n)))"
  by (cases n) simp_all

lemma mset_walk_queue: "mset (walk_queue todo) = mset (concat (map subnodes todo))"
proof (induction todo rule: walk_queue.induct)
  case 1
  show ?case by simp
next
  case (2 n todo)
  then show ?case
    by (simp add: subnodes_children [of n])
qed

lemma mset_walk: "mset (walk tree) = mset (subnodes tree)"
  by (simp add: walk_def mset_walk_queue subnodes_children [of tree])

lemma walk_Module_Nil: "walk (Module []) = [Module []]"
  by (simp add: walk_def)

lemma validate_code_eq:
  "validate_code listing ast_parse code_str =
     (case ast_parse code_str of
        RaisesSyntaxError e \<Rightarrow> Inr \<lparr>valid = False, errors = [syntax_error_msg e]\<rparr>
      | RaisesException e \<Rightarrow> Inr \<lparr>valid = False, errors = [parse_error_msg e]\<rparr>
      | Parsed body \<Rightarrow>
          Inr \<lparr>valid = (concat (map (statement_errors listing) body)
                          @ (if list_ex defines_run body then [] else [missing_run_msg])
                          @ concat (map deep_flags (walk (Module body))) = []),
               errors = concat (map (statement_errors listing) body)
                          @ (if list_ex defines_run body then [] else [missing_run_msg])
                          @ concat (map deep_flags (walk (Module body)))\<rparr>)"
  by (simp add: validate_code_def structural_pass_eq deep_scan_def fold_scan_node Let_def
      split: parse_outcome.splits)
section \<open>Properties of the validator\<close>

text \<open>
  C7. For every source unit and a fixed policy, \<^verbatim>\<open>validate_code\<close> returns a report, and
  in that report \<open>valid\<close> is true if and only if the list of errors is empty.
\<close>

theorem validate_code_valid_iff_no_errors:
  "\<exists>r. validate_code listing ast_parse code_str = Inr r \<and> (valid r \<longleftrightarrow> errors r = [])"
  by (simp add: validate_code_eq split: parse_outcome.splits)

text \<open>
  C8. When the source does not parse (\<^verbatim>\<open>ast.parse\<close> raises \<^verbatim>\<open>SyntaxError\<close>), the report
  is invalid and its list of errors has exactly one element, the syntax error; nothing
  else is checked.
\<close>

theorem validate_code_syntax_error:
  "ast_parse code_str = RaisesSyntaxError e \<Longrightarrow>
     validate_code listing ast_parse code_str =
       Inr \<lparr>valid = False, errors = [syntax_error_msg e]\<rparr>"
  by (simp add: validate_code_def)

theorem validate_code_syntax_error_witness:
  "validate_code listing_in_source_order
     (\<lambda>src. if src = ''def run(params'' then RaisesSyntaxError ''( was never closed''
            else Parsed [])
     ''def run(params'' =
   Inr \<lparr>valid = False, errors = [''Syntax Error: ( was never closed'']\<rparr>"
proof -
  have "validate_code listing_in_source_order
     (\<lambda>src. if src = ''def run(params'' then RaisesSyntaxError ''( was never closed''
            else Parsed [])
     ''def run(params'' =
   Inr \<lparr>valid = False, errors = [syntax_error_msg ''( was never closed'']\<rparr>"
    by (rule validate_code_syntax_error) simp
  then show ?thesis
    by (simp add: syntax_error_msg_def)
qed

text \<open>
  C10. A source whose parsed top-level body is empty (the empty string is one) gets an
  invalid report with exactly one error, the missing entry point; it is not reported
  as a syntax error.
\<close>

theorem validate_code_empty_body:
  "ast_parse code_str = Parsed [] \<Longrightarrow>
     validate_code listing ast_parse code_str =
       Inr \<lparr>valid = False, errors = [missing_run_msg]\<rparr>"
  by (simp add: validate_code_eq walk_Module_Nil)

theorem validate_code_empty_body_witness:
  "validate_code listing_in_source_order (\<lambda>src. Parsed []) [] =
     Inr \<lparr>valid = False,
          errors = [''Missing required function: 'def run(params):'' @ [CHR 0x27]]\<rparr>"
proof -
  have "validate_code listing_in_source_order (\<lambda>src. Parsed []) [] =
     Inr \<lparr>valid = False, errors = [missing_run_msg]\<rparr>"
    by (rule validate_code_empty_body) simp
  then show ?thesis
    by (simp add: missing_run_msg_def quoted_def)
qed

subsection \<open>Totality and determinism\<close>










subsection \<open>The deep pass\<close>

lemma set_walk: "set (walk tree) = set (subnodes tree)"
  using mset_walk [of tree] by (rule mset_eq_setD)

lemma deep_flags_in_validate_code:
  assumes "ast_parse code_str = Parsed body"
    and "validate_code listing ast_parse code_str = Inr r"
    and "n \<in> set (subnodes (Module body))"
  shows "set (deep_flags n) \<subseteq> set (errors r)"
proof -
  have "n \<in> set (walk (Module body))"
    using assms(3) by (simp add: set_walk)
  then have "set (deep_flags n) \<subseteq> set (concat (map deep_flags (walk (Module body))))"
    by auto
  moreover have "errors r =
      concat (map (statement_errors listing) body)
        @ (if list_ex defines_run body then [] else [missing_run_msg])
        @ concat (map deep_flags (walk (Module body)))"
    using assms(1,2) by (auto simp: validate_code_eq)
  then have "set (concat (map deep_flags (walk (Module body)))) \<subseteq> set (errors r)"
    by auto
  ultimately show ?thesis
    by (rule subset_trans)
qed

text \<open>
  C5. The deep pass visits every node of the tree, at any depth, exactly once (the
  walk is a rearrangement of the list of all nodes), and what it appends is, node by
  node in the order of the walk, what the specification asks for: the forbidden-call
  message for a call of a bare name in \<open>FORBIDDEN_CALLS\<close>, the forbidden-attribute
  message for a call of an attribute in \<open>FORBIDDEN_ATTRS\<close>, and nothing for any other
  node; an attribute that is read and not called is not flagged. \<^verbatim>\<open>validate_code\<close>
  runs this pass on the whole module after the structural pass: its report is the
  violations of the structural pass followed by those of the deep pass, so every
  forbidden call at any depth of the module is in the report.
\<close>

theorem validate_code_deep_pass:
  "mset (walk tree) = mset (subnodes tree) \<and>
   deep_scan tree errs = errs @ concat (map deep_flags (walk tree)) \<and>
   (ast_parse code_str = Parsed body \<longrightarrow>
      (\<exists>structural.
         structural_pass listing body = Inr structural \<and>
         validate_code listing ast_parse code_str =
           Inr \<lparr>valid = (structural @ concat (map deep_flags (walk (Module body))) = []),
                errors = structural @ concat (map deep_flags (walk (Module body)))\<rparr>) \<and>
      (\<forall>r ident rest.
         validate_code listing ast_parse code_str = Inr r \<and>
         Call (Name ident) rest \<in> set (subnodes (Module body)) \<and>
         ident \<in> FORBIDDEN_CALLS \<longrightarrow> forbidden_call_msg ident \<in> set (errors r)) \<and>
      (\<forall>r val attr rest.
         validate_code listing ast_parse code_str = Inr r \<and>
         Call (Attribute val attr) rest \<in> set (subnodes (Module body)) \<and>
         attr \<in> FORBIDDEN_ATTRS \<longrightarrow> forbidden_attr_msg attr \<in> set (errors r)))"
proof (intro conjI impI allI)
  show "mset (walk tree) = mset (subnodes tree)"
    by (rule mset_walk)
  show "deep_scan tree errs = errs @ concat (map deep_flags (walk tree))"
    by (simp add: deep_scan_def fold_scan_node)
next
  assume parsed: "ast_parse code_str = Parsed body"
  show "\<exists>structural.
         structural_pass listing body = Inr structural \<and>
         validate_code listing ast_parse code_str =
           Inr \<lparr>valid = (structural @ concat (map deep_flags (walk (Module body))) = []),
                errors = structural @ concat (map deep_flags (walk (Module body)))\<rparr>"
    using parsed
    by (simp add: validate_code_def structural_pass_eq deep_scan_def fold_scan_node)
next
  fix r ident rest
  assume parsed: "ast_parse code_str = Parsed body"
    and "validate_code listing ast_parse code_str = Inr r \<and>
         Call (Name ident) rest \<in> set (subnodes (Module body)) \<and>
         ident \<in> FORBIDDEN_CALLS"
  then show "forbidden_call_msg ident \<in> set (errors r)"
    using deep_flags_in_validate_code [of ast_parse code_str body listing r
        "Call (Name ident) rest"]
    by simp
next
  fix r val attr rest
  assume parsed: "ast_parse code_str = Parsed body"
    and "validate_code listing ast_parse code_str = Inr r \<and>
         Call (Attribute val attr) rest \<in> set (subnodes (Module body)) \<and>
         attr \<in> FORBIDDEN_ATTRS"
  then show "forbidden_attr_msg attr \<in> set (errors r)"
    using deep_flags_in_validate_code [of ast_parse code_str body listing r
        "Call (Attribute val attr) rest"]
    by simp
qed

text \<open>
  C5, at a script with a forbidden call inside a comprehension, a call of a forbidden
  attribute, and a forbidden attribute that is only read: the two calls are reported,
  in the order of the walk, and the read is not.
\<close>

theorem validate_code_deep_pass_witness:
  "validate_code listing_in_source_order (\<lambda>src. Parsed nested_calls_body) ''script'' =
     Inr \<lparr>valid = False,
          errors = [forbidden_attr_msg ''system'', forbidden_call_msg ''eval'']\<rparr>"
proof -
  have "\<exists>structural.
         structural_pass listing_in_source_order nested_calls_body = Inr structural \<and>
         validate_code listing_in_source_order (\<lambda>src. Parsed nested_calls_body) ''script'' =
           Inr \<lparr>valid = (structural
                          @ concat (map deep_flags (walk (Module nested_calls_body))) = []),
                errors = structural
                          @ concat (map deep_flags (walk (Module nested_calls_body)))\<rparr>"
    using validate_code_deep_pass
      [of _ _ "\<lambda>src. Parsed nested_calls_body" "''script''" nested_calls_body
          listing_in_source_order]
    by simp
  moreover have "structural_pass listing_in_source_order nested_calls_body = Inr []"
    by (simp add: structural_pass_eq nested_calls_body_def)
  moreover have "concat (map deep_flags (walk (Module nested_calls_body)))
      = [forbidden_attr_msg ''system'', forbidden_call_msg ''eval'']"
    by (simp add: walk_def nested_calls_body_def FORBIDDEN_CALLS_def FORBIDDEN_ATTRS_def)
  ultimately show ?thesis
    by auto
qed

subsection \<open>The import check\<close>

text \<open>
  C4, at the failing input. For \<^verbatim>\<open>from math import sqrt\<close> the validator looks up the
  imported name \<^verbatim>\<open>sqrt\<close>, not the module \<^verbatim>\<open>math\<close>, and rejects the script with a
  forbidden import of \<^verbatim>\<open>sqrt\<close>; for \<^verbatim>\<open>from os import json\<close> it looks up \<^verbatim>\<open>json\<close> and
  accepts the script.
\<close>

theorem from_import_checks_imported_names:
  "validate_code listing
     (\<lambda>src. Parsed
        [ImportFrom (Some ''math'') [''sqrt''] 0,
         FunctionDef ''run'' (Arguments [] [''params''] None [] None)
           [Other ''arguments'' [Other ''arg'' []],
            Other ''Return''
              [Call (Name ''sqrt'')
                 [Other ''Subscript'' [Name ''params'', Other ''Constant'' []]]]]])
     src
   = Inr \<lparr>valid = False, errors = [forbidden_import_msg listing ''sqrt'']\<rparr>
   \<and>
   validate_code listing
     (\<lambda>src. Parsed
        [ImportFrom (Some ''os'') [''json''] 0,
         FunctionDef ''run'' (Arguments [] [''params''] None [] None)
           [Other ''arguments'' [Other ''arg'' []],
            Other ''Return'' [Name ''json'']]])
     src
   = Inr \<lparr>valid = True, errors = []\<rparr>"
  by (simp add: validate_code_eq alias_errors_def module_root_def ALLOWED_IMPORTS_def
      FORBIDDEN_CALLS_def walk_def)

subsection \<open>The structural pass\<close>











section \<open>Properties of the runner\<close>

text \<open>
  C2, at the failing inputs. A script that rebinds the \<^verbatim>\<open>sys\<close> of \<^verbatim>\<open>contextlib\<close> and
  returns 42 makes leaving the \<^verbatim>\<open>with\<close> block raise after \<^verbatim>\<open>result_data\<close> was assigned:
  the dictionary has \<open>success\<close> false and \<open>data\<close> 42. A script that prints and then
  empties the buffer returns with an empty \<open>stdout\<close>. The validator accepts the first
  script. For the script of the specification, which prints \<^verbatim>\<open>hi\<close> and raises
  \<^verbatim>\<open>ValueError('boom')\<close>, the dictionary is as the specification says.
\<close>

theorem execute_task_failure_with_data:
  "execute_task known_python some_builtins keep_data_script (PyDict []) =
     Returned \<lparr>success = False, data = Some (PyInt 42),
               error = Some (''Traceback (most recent call last):\<newline>''
                             @ ''AttributeError: '' @ quoted ''int''
                             @ '' object has no attribute '' @ quoted ''stdout''
                             @ ''\<newline>''),
               stdout = [], stderr = []\<rparr> \<and>
   execute_task known_python some_builtins truncate_script (PyDict []) =
     Returned \<lparr>success = True, data = Some (PyInt 1), error = None,
               stdout = [], stderr = []\<rparr> \<and>
   execute_task known_python some_builtins hi_boom_script (PyDict []) =
     Returned \<lparr>success = False, data = None,
               error = Some (''Traceback (most recent call last):\<newline>''
                             @ ''ValueError: boom\<newline>''),
               stdout = ''hi\<newline>'', stderr = []\<rparr> \<and>
   validate_code listing (\<lambda>src. Parsed keep_data_body) keep_data_script =
     Inr \<lparr>valid = True, errors = []\<rparr>"
proof (intro conjI)
  show "execute_task known_python some_builtins keep_data_script (PyDict []) =
     Returned \<lparr>success = False, data = Some (PyInt 42),
               error = Some (''Traceback (most recent call last):\<newline>''
                             @ ''AttributeError: '' @ quoted ''int''
                             @ '' object has no attribute '' @ quoted ''stdout''
                             @ ''\<newline>''),
               stdout = [], stderr = []\<rparr>"
    by (simp add: execute_task_def known_python_def entry_point_def leave_with_def
        except_clause_def return_result_def getvalue_def new_capture_def
        no_attribute_error_def keep_data_script_def hi_boom_script_def Let_def)
  show "execute_task known_python some_builtins truncate_script (PyDict []) =
     Returned \<lparr>success = True, data = Some (PyInt 1), error = None,
               stdout = [], stderr = []\<rparr>"
    by (simp add: execute_task_def known_python_def entry_point_def leave_with_def
        except_clause_def return_result_def getvalue_def new_capture_def
        truncate_script_def keep_data_script_def close_stdout_script_def
        hi_boom_script_def Let_def)
  show "execute_task known_python some_builtins hi_boom_script (PyDict []) =
     Returned \<lparr>success = False, data = None,
               error = Some (''Traceback (most recent call last):\<newline>''
                             @ ''ValueError: boom\<newline>''),
               stdout = ''hi\<newline>'', stderr = []\<rparr>"
    by (simp add: execute_task_def known_python_def entry_point_def leave_with_def
        except_clause_def return_result_def getvalue_def new_capture_def
        boom_error_def Let_def)
  show "validate_code listing (\<lambda>src. Parsed keep_data_body) keep_data_script =
     Inr \<lparr>valid = True, errors = []\<rparr>"
    by (simp add: validate_code_eq keep_data_body_def alias_errors_def module_root_def
        ALLOWED_IMPORTS_def walk_def)
qed

text \<open>
  C6, at the failing input. A script that closes the buffer that stands for
  \<^verbatim>\<open>sys.stdout\<close> and then raises \<^verbatim>\<open>ValueError\<close>, an instance of \<^verbatim>\<open>Exception\<close>: the handler
  catches the exception, and the return statement, which is outside the \<^verbatim>\<open>try\<close>, raises
  \<^verbatim>\<open>ValueError\<close> when it reads the closed buffer, so \<^verbatim>\<open>execute_task\<close> returns no
  dictionary. The validator accepts the script.
\<close>

theorem execute_task_raises_after_handler:
  "execute_task known_python some_builtins close_stdout_script (PyDict []) =
     Propagated closed_file_error \<and>
   is_Exception boom_error \<and>
   validate_code listing (\<lambda>src. Parsed close_stdout_body) close_stdout_script =
     Inr \<lparr>valid = True, errors = []\<rparr>"
proof (intro conjI)
  show "execute_task known_python some_builtins close_stdout_script (PyDict []) =
     Propagated closed_file_error"
    by (simp add: execute_task_def known_python_def entry_point_def leave_with_def
        except_clause_def return_result_def getvalue_def new_capture_def
        boom_error_def close_stdout_script_def keep_data_script_def hi_boom_script_def
        Let_def)
  show "is_Exception boom_error"
    by (simp add: boom_error_def)
  show "validate_code listing (\<lambda>src. Parsed close_stdout_body) close_stdout_script =
     Inr \<lparr>valid = True, errors = []\<rparr>"
    by (simp add: validate_code_eq close_stdout_body_def alias_errors_def module_root_def
        ALLOWED_IMPORTS_def FORBIDDEN_CALLS_def FORBIDDEN_ATTRS_def walk_def)
qed

text \<open>
  C1, at the failing input. The sandbox has the two keys \<^verbatim>\<open>__builtins__\<close> and \<^verbatim>\<open>params\<close>,
  and the built-ins are those of \<open>SAFE_BUILTINS\<close>: \<^verbatim>\<open>open\<close> is not among them, but
  \<^verbatim>\<open>__import__\<close> is, bound to the real \<^verbatim>\<open>builtins.__import__\<close>, which the validator lists
  among the dangerous calls. The script
  \<^verbatim>\<open>def run(params): f = __import__; return f('os').getcwd()\<close>
  reaches it without calling it by name, and the validator accepts that script.
\<close>

theorem sandbox_binds_import:
  "dom (make_sandbox builtins params) = {''__builtins__'', ''params''} \<and>
   make_sandbox builtins params ''__builtins__''
     = Some (BuiltinsDict (builtins |` SAFE_BUILTINS)) \<and>
   (builtins |` SAFE_BUILTINS) ''__import__'' = builtins ''__import__'' \<and>
   (builtins |` SAFE_BUILTINS) ''open'' = None \<and>
   ''__import__'' \<in> FORBIDDEN_CALLS \<and>
   validate_code listing
     (\<lambda>src. Parsed
        [FunctionDef ''run'' (Arguments [] [''params''] None [] None)
           [Other ''arguments'' [Other ''arg'' []],
            Other ''Assign'' [Name ''f'', Name ''__import__''],
            Other ''Return''
              [Call (Attribute (Call (Name ''f'') [Other ''Constant'' []]) ''getcwd'') []]]])
     src
   = Inr \<lparr>valid = True, errors = []\<rparr>"
  by (auto simp: make_sandbox_def SAFE_BUILTINS_def FORBIDDEN_CALLS_def FORBIDDEN_ATTRS_def
      validate_code_eq walk_def)

end
